theory Spec2Isabelle
  imports Complex_Main
begin

section \<open>The mesh base class of pybamm/discretisations/base_mesh.py\<close>

text \<open>
  The module defines one class, \<^verbatim>\<open>BaseMesh\<close>, with a constructor that stores a time
  grid and four properties that read private backing fields:
  \<^verbatim>\<open>
  class BaseMesh(object):
      def __init__(self, param, target_npts=10, tsteps=100, tend=1):
          self.time = np.linspace(0, tend, tsteps)

      @property
      def negative_electrode(self):
          return self._negative_electrode
      ... (separator, positive_electrode, whole_cell likewise)
  \<close>
  Floating-point numbers are idealised as exact reals throughout; the step count is a
  Python integer.
\<close>

subsection \<open>Values, errors and instances\<close>

datatype error = ValueError | AttributeError

text \<open>
  A Python value held in an attribute: a one-dimensional float array, or a reference to
  some other object, identified by its address.
\<close>

datatype pyval = NDArray "real list" | Object nat

text \<open>An instance is its attribute dictionary (\<^verbatim>\<open>self.__dict__\<close>).\<close>

type_synonym mesh = "string \<rightharpoonup> pyval"

subsection \<open>The array allocation used by the constructor\<close>

text \<open>
  Modelled from the spec: \<^verbatim>\<open>numpy.linspace\<close> is a routine of the external NumPy library,
  whose source is not part of the repository. The spec describes the call as allocating
  \<^verbatim>\<open>tsteps\<close> evenly spaced values from 0 to \<^verbatim>\<open>tend\<close> inclusive, with a single entry 0 for
  one step and the library's own error for a negative step count. The definition follows
  the library routine with \<^verbatim>\<open>endpoint=True\<close>: a negative sample count raises
  \<^verbatim>\<open>ValueError\<close>; otherwise the samples are \<^verbatim>\<open>arange(0, num) * step + start\<close> with
  \<^verbatim>\<open>step = (stop - start) / (num - 1)\<close> (multiplying by \<^verbatim>\<open>delta\<close> itself when
  \<^verbatim>\<open>num - 1\<close> is not positive, and dividing first when the step is zero), and the last
  sample is overwritten with \<^verbatim>\<open>stop\<close> when there is more than one.
\<close>

definition linspace :: "real \<Rightarrow> real \<Rightarrow> int \<Rightarrow> error + real list" where
  "linspace start stop num =
     (if num < 0 then Inl ValueError
      else
        let d = num - 1;
            delta = stop - start;
            y0 = map real [0..<nat num];
            y1 = (if 0 < d then
                    (let step = delta / real_of_int d in
                     if step = 0 then map (\<lambda>v. v / real_of_int d * delta) y0
                     else map (\<lambda>v. v * step) y0)
                  else map (\<lambda>v. v * delta) y0);
            y2 = map (\<lambda>v. v + start) y1
        in Inr (if 1 < num then y2[nat num - 1 := stop] else y2))"

subsection \<open>Attribute access on a BaseMesh instance\<close>

text \<open>
  Reading a name that the class does not define looks it up in the instance dictionary
  and raises \<^verbatim>\<open>AttributeError\<close> when it is absent. This is what \<^verbatim>\<open>self._separator\<close>
  does inside a property body.
\<close>

definition instance_getattr :: "mesh \<Rightarrow> string \<Rightarrow> error + pyval" where
  "instance_getattr self name =
     (case self name of None \<Rightarrow> Inl AttributeError | Some v \<Rightarrow> Inr v)"

definition negative_electrode :: "mesh \<Rightarrow> error + pyval" where
  "negative_electrode self = instance_getattr self ''_negative_electrode''"

definition separator :: "mesh \<Rightarrow> error + pyval" where
  "separator self = instance_getattr self ''_separator''"

definition positive_electrode :: "mesh \<Rightarrow> error + pyval" where
  "positive_electrode self = instance_getattr self ''_positive_electrode''"

definition whole_cell :: "mesh \<Rightarrow> error + pyval" where
  "whole_cell self = instance_getattr self ''_whole_cell''"

text \<open>
  The properties of the class, by name, each with its getter. None of them has a setter
  or a deleter.
\<close>

definition BaseMesh_property :: "string \<Rightarrow> (mesh \<Rightarrow> error + pyval) option" where
  "BaseMesh_property name =
     (if name = ''negative_electrode'' then Some negative_electrode
      else if name = ''separator'' then Some separator
      else if name = ''positive_electrode'' then Some positive_electrode
      else if name = ''whole_cell'' then Some whole_cell
      else None)"

text \<open>
  \<^verbatim>\<open>obj.name\<close>, \<^verbatim>\<open>obj.name = v\<close> and \<^verbatim>\<open>del obj.name\<close> on an instance of the class. A
  property is a data descriptor and takes precedence over the instance dictionary:
  reading runs the getter, writing and deleting raise \<^verbatim>\<open>AttributeError\<close> because no
  setter or deleter is defined. Every other name goes to the instance dictionary.
\<close>

definition getattr :: "mesh \<Rightarrow> string \<Rightarrow> error + pyval" where
  "getattr self name =
     (case BaseMesh_property name of
        Some fget \<Rightarrow> fget self
      | None \<Rightarrow> instance_getattr self name)"

definition setattr :: "mesh \<Rightarrow> string \<Rightarrow> pyval \<Rightarrow> error + mesh" where
  "setattr self name v =
     (case BaseMesh_property name of
        Some fget \<Rightarrow> Inl AttributeError
      | None \<Rightarrow> Inr (self(name \<mapsto> v)))"

definition delattr :: "mesh \<Rightarrow> string \<Rightarrow> error + mesh" where
  "delattr self name =
     (case BaseMesh_property name of
        Some fget \<Rightarrow> Inl AttributeError
      | None \<Rightarrow>
          (case self name of
             None \<Rightarrow> Inl AttributeError
           | Some v \<Rightarrow> Inr (self(name := None))))"

text \<open>
  One operation a client performs on a mesh, with its outcome and the mesh afterwards.
  An operation that raises leaves the instance as it was.
\<close>

datatype operation = GetAttr string | SetAttr string pyval | DelAttr string

fun perform :: "operation \<Rightarrow> mesh \<Rightarrow> (error + pyval option) \<times> mesh" where
  "perform (GetAttr name) self =
     (case getattr self name of
        Inl e \<Rightarrow> (Inl e, self)
      | Inr v \<Rightarrow> (Inr (Some v), self))"
| "perform (SetAttr name v) self =
     (case setattr self name v of
        Inl e \<Rightarrow> (Inl e, self)
      | Inr self' \<Rightarrow> (Inr None, self'))"
| "perform (DelAttr name) self =
     (case delattr self name of
        Inl e \<Rightarrow> (Inl e, self)
      | Inr self' \<Rightarrow> (Inr None, self'))"

subsection \<open>Construction\<close>

text \<open>
  \<^verbatim>\<open>__init__\<close>: the only statement assigns \<^verbatim>\<open>self.time\<close>. Neither \<^verbatim>\<open>param\<close> nor
  \<^verbatim>\<open>target_npts\<close> is read. An exception of \<^verbatim>\<open>linspace\<close> propagates.
\<close>

definition init :: "mesh \<Rightarrow> 'p \<Rightarrow> 'n \<Rightarrow> int \<Rightarrow> real \<Rightarrow> error + mesh" where
  "init self param target_npts tsteps tend =
     (case linspace 0 tend tsteps of
        Inl e \<Rightarrow> Inl e
      | Inr t \<Rightarrow> setattr self ''time'' (NDArray t))"

text \<open>
  Binding of the optional arguments of the signature
  \<^verbatim>\<open>__init__(self, param, target_npts=10, tsteps=100, tend=1)\<close>: an omitted argument
  (\<open>None\<close>) takes its default.
\<close>

definition init_args :: "int option \<Rightarrow> int option \<Rightarrow> real option \<Rightarrow> int \<times> int \<times> real" where
  "init_args target_npts tsteps tend =
     (case target_npts of None \<Rightarrow> 10 | Some n \<Rightarrow> n,
      case tsteps of None \<Rightarrow> 100 | Some n \<Rightarrow> n,
      case tend of None \<Rightarrow> 1 | Some t \<Rightarrow> t)"

text \<open>
  The call \<^verbatim>\<open>BaseMesh(param, ...)\<close>: a fresh instance with an empty dictionary is
  passed to \<^verbatim>\<open>__init__\<close> together with the bound arguments.
\<close>

definition BaseMesh :: "'p \<Rightarrow> int option \<Rightarrow> int option \<Rightarrow> real option \<Rightarrow> error + mesh" where
  "BaseMesh param target_npts tsteps tend =
     (case init_args target_npts tsteps tend of
        (n, ts, te) \<Rightarrow> init Map.empty param n ts te)"

section \<open>Auxiliary facts\<close>

lemma BaseMesh_property_simps:
  "BaseMesh_property ''negative_electrode'' = Some negative_electrode"
  "BaseMesh_property ''separator'' = Some separator"
  "BaseMesh_property ''positive_electrode'' = Some positive_electrode"
  "BaseMesh_property ''whole_cell'' = Some whole_cell"
  "BaseMesh_property ''time'' = None"
  by (simp_all add: BaseMesh_property_def)

lemma init_linspace:
  "init self param target_npts tsteps tend =
     (case linspace 0 tend tsteps of
        Inl e \<Rightarrow> Inl e
      | Inr t \<Rightarrow> Inr (self(''time'' \<mapsto> NDArray t)))"
  by (simp add: init_def setattr_def BaseMesh_property_simps split: sum.splits)

lemma BaseMesh_linspace:
  "BaseMesh param target_npts (Some tsteps) (Some tend) =
     (case linspace 0 tend tsteps of
        Inl e \<Rightarrow> Inl e
      | Inr t \<Rightarrow> Inr [''time'' \<mapsto> NDArray t])"
  by (simp add: BaseMesh_def init_args_def init_linspace)

lemma linspace_neg: "num < 0 \<Longrightarrow> linspace start stop num = Inl ValueError"
  by (simp add: linspace_def)

lemma linspace_zero: "linspace start stop 0 = Inr []"
  by (simp add: linspace_def)

lemma linspace_one: "linspace 0 stop 1 = Inr [0]"
  by (simp add: linspace_def)

text \<open>
  With at least two samples the step is positive-denominator division, and overwriting the
  last sample with \<open>stop\<close> does not change it in exact arithmetic.
\<close>

lemma linspace_ge2:
  assumes "2 \<le> num"
  shows "linspace 0 stop num =
     Inr (map (\<lambda>i. real i * stop / real_of_int (num - 1)) [0..<nat num])"
proof -
  have d: "0 < num - 1" "\<not> num < 0" "1 < num" using assms by auto
  have r: "real_of_int (num - 1) = real (nat num - 1)" using assms by auto
  show ?thesis
  proof (cases "stop = 0")
    case True
    then show ?thesis using d
      by (auto simp: linspace_def Let_def nth_list_update intro!: nth_equalityI)
  next
    case False
    then show ?thesis using d assms
      by (auto simp: linspace_def Let_def r nth_list_update intro!: nth_equalityI)
  qed
qed

section \<open>The time grid\<close>

text \<open>
  Claim C1. For every \<open>tsteps \<ge> 2\<close> and every \<open>tend\<close>, constructing a mesh succeeds and
  stores a time sequence with exactly \<open>tsteps\<close> entries, entry \<open>i\<close> being
  \<open>i * tend / (tsteps - 1)\<close>: the first entry is 0, the last is \<open>tend\<close>, and consecutive
  entries differ by \<open>tend / (tsteps - 1)\<close>. The witness is the default call, with 100
  entries from 0 to 1 and spacing \<open>1/99\<close>.
\<close>

theorem time_evenly_spaced:
  fixes tsteps :: int and tend :: real
  defines "ts \<equiv> map (\<lambda>i. real i * tend / real_of_int (tsteps - 1)) [0..<nat tsteps]"
  assumes "2 \<le> tsteps"
  shows "BaseMesh param target_npts (Some tsteps) (Some tend) = Inr [''time'' \<mapsto> NDArray ts]
    \<and> int (length ts) = tsteps
    \<and> (\<forall>i < nat tsteps. ts ! i = real i * tend / real_of_int (tsteps - 1))
    \<and> hd ts = 0 \<and> last ts = tend
    \<and> (\<forall>i. Suc i < nat tsteps \<longrightarrow> ts ! Suc i - ts ! i = tend / real_of_int (tsteps - 1))"
proof -
  have n: "0 < nat tsteps" "nat tsteps - 1 < nat tsteps" using assms(2) by auto
  have r: "real_of_int (tsteps - 1) = real (nat tsteps - 1)" "real (nat tsteps - 1) \<noteq> 0"
    using assms(2) by auto
  have ne: "ts \<noteq> []" using n by (simp add: ts_def)
  have 1: "BaseMesh param target_npts (Some tsteps) (Some tend) = Inr [''time'' \<mapsto> NDArray ts]"
    using assms(2) by (simp add: BaseMesh_linspace linspace_ge2 ts_def)
  have 2: "int (length ts) = tsteps" using assms(2) by (simp add: ts_def)
  have 3: "\<forall>i < nat tsteps. ts ! i = real i * tend / real_of_int (tsteps - 1)"
    by (simp add: ts_def)
  have 4: "hd ts = 0" using ne n 3 by (simp add: hd_conv_nth)
  have 5: "last ts = tend" using ne n 3 r 2 by (simp add: last_conv_nth ts_def)
  have 6: "\<forall>i. Suc i < nat tsteps \<longrightarrow> ts ! Suc i - ts ! i = tend / real_of_int (tsteps - 1)"
  proof (intro allI impI)
    fix i
    assume i: "Suc i < nat tsteps"
    then have "ts ! Suc i - ts ! i =
        real (Suc i) * tend / real_of_int (tsteps - 1) - real i * tend / real_of_int (tsteps - 1)"
      using 3 by simp
    also have "\<dots> = (real (Suc i) * tend - real i * tend) / real_of_int (tsteps - 1)"
      by (simp only: diff_divide_distrib)
    also have "real (Suc i) * tend - real i * tend = tend"
      by (simp add: algebra_simps)
    finally show "ts ! Suc i - ts ! i = tend / real_of_int (tsteps - 1)" .
  qed
  from 1 2 3 4 5 6 show ?thesis by blast
qed

theorem time_evenly_spaced_witness:
  "(2::int) \<le> 100
   \<and> BaseMesh () None None None = Inr [''time'' \<mapsto> NDArray (map (\<lambda>i. real i / 99) [0..<100])]
   \<and> length (map (\<lambda>i. real i / 99) [0..<100]) = 100
   \<and> hd (map (\<lambda>i. real i / 99) [0..<100]) = 0
   \<and> last (map (\<lambda>i. real i / 99) [0..<100]) = 1
   \<and> map (\<lambda>i. map (\<lambda>i. real i / 99) [0..<100] ! Suc i - map (\<lambda>i. real i / 99) [0..<100] ! i)
        [0..<99]
       = replicate 99 (1 / 99)"
proof -
  have h: "(2::int) \<le> 100" by simp
  have d: "BaseMesh () None None None = BaseMesh () (Some 10) (Some 100) (Some 1)"
    by (simp add: BaseMesh_def init_args_def)
  note t = time_evenly_spaced [OF h, of "()" "Some 10" 1, simplified]
  show ?thesis using t d
    by (auto intro!: nth_equalityI)
qed

text \<open>
  Claim C6. With \<open>tsteps = 1\<close>, whatever the end time (given or defaulted), the time
  sequence has exactly one entry, and that entry is 0.
\<close>

theorem single_step_time:
  "BaseMesh param target_npts (Some 1) (Some tend) = Inr [''time'' \<mapsto> NDArray [0]]
   \<and> BaseMesh param target_npts (Some 1) None = Inr [''time'' \<mapsto> NDArray [0]]"
  by (simp add: BaseMesh_def init_args_def init_linspace linspace_one)

text \<open>
  Claim C9. With \<open>tsteps = 0\<close> construction succeeds and the time sequence is empty, so
  neither 0 nor \<open>tend\<close> occurs in it.
\<close>

theorem zero_steps_empty_time:
  "\<exists>ts. BaseMesh param target_npts (Some 0) (Some tend) = Inr [''time'' \<mapsto> NDArray ts]
     \<and> length ts = 0 \<and> 0 \<notin> set ts \<and> tend \<notin> set ts"
  by (intro exI [of _ "[]"]) (simp add: BaseMesh_linspace linspace_zero)

text \<open>
  Claim C10. For \<open>tsteps \<ge> 0\<close> and \<open>tend \<ge> 0\<close> construction succeeds and the time sequence
  is nondecreasing; when moreover \<open>tend > 0\<close> and \<open>tsteps \<ge> 2\<close> it is strictly increasing.
\<close>

theorem time_monotone:
  assumes "0 \<le> tsteps" and "0 \<le> tend"
  shows "\<exists>ts. BaseMesh param target_npts (Some tsteps) (Some tend) = Inr [''time'' \<mapsto> NDArray ts]
     \<and> sorted ts
     \<and> (0 < tend \<and> 2 \<le> tsteps \<longrightarrow> sorted_wrt (<) ts)"
proof -
  consider "tsteps = 0" | "tsteps = 1" | "2 \<le> tsteps" using assms(1) by linarith
  then show ?thesis
  proof cases
    case 1
    then show ?thesis by (intro exI [of _ "[]"]) (simp add: BaseMesh_linspace linspace_zero)
  next
    case 2
    then show ?thesis by (intro exI [of _ "[0]"]) (simp add: BaseMesh_linspace linspace_one)
  next
    case 3
    let ?f = "\<lambda>i. real i * tend / real_of_int (tsteps - 1)"
    have pos: "0 < real_of_int (tsteps - 1)" using 3 by simp
    have mono: "\<And>i j. i \<le> j \<Longrightarrow> ?f i \<le> ?f j"
      using pos assms(2) by (simp add: divide_right_mono mult_right_mono)
    have smono: "\<And>i j. 0 < tend \<Longrightarrow> i < j \<Longrightarrow> ?f i < ?f j"
      using pos by (simp add: divide_strict_right_mono)
    have s: "sorted (map ?f [0..<nat tsteps])"
      by (rule sorted_wrt_map_mono [OF sorted_upt]) (blast intro: mono)
    have ss: "0 < tend \<Longrightarrow> sorted_wrt (<) (map ?f [0..<nat tsteps])"
      by (rule sorted_wrt_map_mono [OF sorted_wrt_upt]) (blast intro: smono)
    have "BaseMesh param target_npts (Some tsteps) (Some tend) =
        Inr [''time'' \<mapsto> NDArray (map ?f [0..<nat tsteps])]"
      using 3 by (simp add: BaseMesh_linspace linspace_ge2)
    with s ss show ?thesis by blast
  qed
qed

theorem time_monotone_witness:
  "(0::int) \<le> 3 \<and> (0::real) \<le> 2
   \<and> BaseMesh () None (Some 3) (Some 2) = Inr [''time'' \<mapsto> NDArray [0, 1, 2]]
   \<and> sorted [0, 1, 2::real] \<and> sorted_wrt (<) [0, 1, 2::real]"
proof -
  have h: "(0::int) \<le> 3" "(0::real) \<le> 2" by simp_all
  have v: "BaseMesh () None (Some 3) (Some 2) = Inr [''time'' \<mapsto> NDArray [0, 1, 2]]"
    by (simp add: BaseMesh_linspace linspace_def Let_def upt_rec)
  from time_monotone [OF h, of "()" None] obtain ts where
    ts: "BaseMesh () None (Some 3) (Some 2) = Inr [''time'' \<mapsto> NDArray ts]"
      "sorted ts" "0 < (2::real) \<and> (2::int) \<le> 3 \<longrightarrow> sorted_wrt (<) ts"
    by blast
  from ts(1) v have "[''time'' \<mapsto> NDArray ts] = [''time'' \<mapsto> NDArray [0, 1, 2]]" by simp
  then have "ts = [0, 1, 2]" by (auto dest: map_upd_eqD1)
  with ts v show ?thesis by simp
qed

section \<open>Construction: arguments and errors\<close>

text \<open>
  Claim C4. The constructed state depends only on \<open>tsteps\<close> and \<open>tend\<close>: two runs that
  agree on these give the same result, whatever their \<open>param\<close> and \<open>target_npts\<close>
  (of any type) are.
\<close>

theorem init_ignores_param_and_target_npts:
  "BaseMesh (param1 :: 'a) target_npts1 tsteps tend = BaseMesh (param2 :: 'b) target_npts2 tsteps tend
   \<and> init self param1 (n1 :: 'c) ts te = init self param2 (n2 :: 'd) ts te"
  by (simp add: BaseMesh_def init_args_def init_def)

text \<open>
  Claim C5. For a negative step count the array allocation raises, and construction
  raises that very error: no mesh results.
\<close>

theorem negative_tsteps_raises:
  assumes "tsteps < 0"
  shows "linspace 0 tend tsteps = Inl ValueError
    \<and> BaseMesh param target_npts (Some tsteps) (Some tend) = Inl ValueError"
  using assms by (simp add: BaseMesh_linspace linspace_neg)

theorem negative_tsteps_raises_witness:
  "(-1::int) < 0 \<and> linspace 0 1 (-1) = Inl ValueError
   \<and> BaseMesh () None (Some (-1)) (Some 1) = Inl ValueError"
  using negative_tsteps_raises [of "-1" 1 "()" None] by simp

text \<open>
  Claim C7. The defaults are \<open>target_npts = 10\<close>, \<open>tsteps = 100\<close> and \<open>tend = 1\<close>:
  a call with all three omitted binds these values and yields the same state as the call
  that passes them explicitly.
\<close>

theorem default_arguments:
  "init_args None None None = (10, 100, 1)
   \<and> BaseMesh param None None None = BaseMesh param (Some 10) (Some 100) (Some 1)"
  by (simp add: BaseMesh_def init_args_def)

section \<open>The subdomain accessors\<close>

text \<open>
  Claim C8. On every mesh that the constructor returns, reading any of the four
  subdomain properties raises \<^verbatim>\<open>AttributeError\<close> (and leaves the mesh as it was):
  the constructor stores \<^verbatim>\<open>time\<close> only, none of the backing fields.
\<close>

theorem fresh_mesh_accessors_fail:
  assumes "BaseMesh param target_npts tsteps tend = Inr m"
  shows "perform (GetAttr ''negative_electrode'') m = (Inl AttributeError, m)
    \<and> perform (GetAttr ''separator'') m = (Inl AttributeError, m)
    \<and> perform (GetAttr ''positive_electrode'') m = (Inl AttributeError, m)
    \<and> perform (GetAttr ''whole_cell'') m = (Inl AttributeError, m)"
proof -
  from assms obtain t where "m = [''time'' \<mapsto> NDArray t]"
    by (auto simp: BaseMesh_def init_args_def init_linspace split: sum.splits)
  then show ?thesis
    by (simp add: getattr_def BaseMesh_property_simps negative_electrode_def separator_def
        positive_electrode_def whole_cell_def instance_getattr_def)
qed

theorem fresh_mesh_accessors_fail_witness:
  "BaseMesh () None (Some 1) None = Inr [''time'' \<mapsto> NDArray [0]]
   \<and> perform (GetAttr ''negative_electrode'') [''time'' \<mapsto> NDArray [0]]
       = (Inl AttributeError, [''time'' \<mapsto> NDArray [0]])
   \<and> perform (GetAttr ''separator'') [''time'' \<mapsto> NDArray [0]]
       = (Inl AttributeError, [''time'' \<mapsto> NDArray [0]])
   \<and> perform (GetAttr ''positive_electrode'') [''time'' \<mapsto> NDArray [0]]
       = (Inl AttributeError, [''time'' \<mapsto> NDArray [0]])
   \<and> perform (GetAttr ''whole_cell'') [''time'' \<mapsto> NDArray [0]]
       = (Inl AttributeError, [''time'' \<mapsto> NDArray [0]])"
proof -
  have c: "BaseMesh () None (Some 1) None = Inr [''time'' \<mapsto> NDArray [0]]"
    by (simp add: BaseMesh_def init_args_def init_linspace linspace_one)
  from fresh_mesh_accessors_fail [OF c] c show ?thesis by simp
qed

text \<open>
  Claim C2, as stated, fails: on the mesh built with two time steps the \<^verbatim>\<open>separator\<close>
  accessor has nothing stored to return and raises.
\<close>

theorem accessor_unset_counterexample:
  "BaseMesh () None (Some 2) (Some 1) = Inr [''time'' \<mapsto> NDArray [0, 1]]
   \<and> getattr [''time'' \<mapsto> NDArray [0, 1]] ''separator'' = Inl AttributeError
   \<and> separator [''time'' \<mapsto> NDArray [0, 1]] = Inl AttributeError"
  by (simp add: BaseMesh_linspace linspace_def Let_def upt_rec getattr_def
      BaseMesh_property_simps separator_def instance_getattr_def)

text \<open>
  Claim C2, amended. Each accessor returns exactly the value held in its backing field,
  unchanged, and leaves the mesh as it was, whenever that field has been assigned.
\<close>

theorem accessor_reads_backing_field:
  "(self ''_negative_electrode'' = Some ne \<longrightarrow>
      perform (GetAttr ''negative_electrode'') self = (Inr (Some ne), self))
   \<and> (self ''_separator'' = Some sep \<longrightarrow>
      perform (GetAttr ''separator'') self = (Inr (Some sep), self))
   \<and> (self ''_positive_electrode'' = Some pe \<longrightarrow>
      perform (GetAttr ''positive_electrode'') self = (Inr (Some pe), self))
   \<and> (self ''_whole_cell'' = Some wc \<longrightarrow>
      perform (GetAttr ''whole_cell'') self = (Inr (Some wc), self))"
  by (simp add: getattr_def BaseMesh_property_simps negative_electrode_def separator_def
      positive_electrode_def whole_cell_def instance_getattr_def)

theorem accessor_reads_backing_field_witness:
  "perform (GetAttr ''negative_electrode'')
     [''_negative_electrode'' \<mapsto> Object 1, ''_separator'' \<mapsto> Object 2,
      ''_positive_electrode'' \<mapsto> Object 3, ''_whole_cell'' \<mapsto> Object 4]
   = (Inr (Some (Object 1)),
      [''_negative_electrode'' \<mapsto> Object 1, ''_separator'' \<mapsto> Object 2,
       ''_positive_electrode'' \<mapsto> Object 3, ''_whole_cell'' \<mapsto> Object 4])
   \<and> perform (GetAttr ''separator'')
     [''_negative_electrode'' \<mapsto> Object 1, ''_separator'' \<mapsto> Object 2,
      ''_positive_electrode'' \<mapsto> Object 3, ''_whole_cell'' \<mapsto> Object 4]
   = (Inr (Some (Object 2)),
      [''_negative_electrode'' \<mapsto> Object 1, ''_separator'' \<mapsto> Object 2,
       ''_positive_electrode'' \<mapsto> Object 3, ''_whole_cell'' \<mapsto> Object 4])
   \<and> perform (GetAttr ''positive_electrode'')
     [''_negative_electrode'' \<mapsto> Object 1, ''_separator'' \<mapsto> Object 2,
      ''_positive_electrode'' \<mapsto> Object 3, ''_whole_cell'' \<mapsto> Object 4]
   = (Inr (Some (Object 3)),
      [''_negative_electrode'' \<mapsto> Object 1, ''_separator'' \<mapsto> Object 2,
       ''_positive_electrode'' \<mapsto> Object 3, ''_whole_cell'' \<mapsto> Object 4])
   \<and> perform (GetAttr ''whole_cell'')
     [''_negative_electrode'' \<mapsto> Object 1, ''_separator'' \<mapsto> Object 2,
      ''_positive_electrode'' \<mapsto> Object 3, ''_whole_cell'' \<mapsto> Object 4]
   = (Inr (Some (Object 4)),
      [''_negative_electrode'' \<mapsto> Object 1, ''_separator'' \<mapsto> Object 2,
       ''_positive_electrode'' \<mapsto> Object 3, ''_whole_cell'' \<mapsto> Object 4])"
  using accessor_reads_backing_field
    [of "[''_negative_electrode'' \<mapsto> Object 1, ''_separator'' \<mapsto> Object 2,
          ''_positive_electrode'' \<mapsto> Object 3, ''_whole_cell'' \<mapsto> Object 4]"
        "Object 1" "Object 2" "Object 3" "Object 4"]
  by simp

text \<open>
  Claim C3, as stated, fails: a constructed mesh can be mutated. The attribute
  \<^verbatim>\<open>time\<close> is a plain instance attribute, not a property, so on the mesh built with one
  time step the assignment \<^verbatim>\<open>m.time = obj\<close> succeeds and replaces the stored array, and
  \<^verbatim>\<open>del m.time\<close> succeeds and removes it.
\<close>

theorem time_assignable_counterexample:
  "BaseMesh () None (Some 1) (Some 1) = Inr [''time'' \<mapsto> NDArray [0]]
   \<and> perform (SetAttr ''time'' (Object 6)) [''time'' \<mapsto> NDArray [0]]
       = (Inr None, [''time'' \<mapsto> Object 6])
   \<and> [''time'' \<mapsto> Object 6] \<noteq> [''time'' \<mapsto> NDArray [0]]
   \<and> perform (DelAttr ''time'') [''time'' \<mapsto> NDArray [0]] = (Inr None, Map.empty)
   \<and> Map.empty \<noteq> [''time'' \<mapsto> NDArray [0]]"
proof -
  have c: "BaseMesh () None (Some 1) (Some 1) = Inr [''time'' \<mapsto> NDArray [0]]"
    by (simp add: BaseMesh_linspace linspace_one)
  have s: "perform (SetAttr ''time'' (Object 6)) [''time'' \<mapsto> NDArray [0]]
      = (Inr None, [''time'' \<mapsto> Object 6])"
    by (simp add: setattr_def BaseMesh_property_simps)
  have d: "perform (DelAttr ''time'') [''time'' \<mapsto> NDArray [0]] = (Inr None, Map.empty)"
    by (simp add: delattr_def BaseMesh_property_simps)
  have n1: "[''time'' \<mapsto> Object 6] \<noteq> [''time'' \<mapsto> NDArray [0]]"
  proof
    assume "[''time'' \<mapsto> Object 6] = [''time'' \<mapsto> NDArray [0]]"
    then have "Object 6 = NDArray [0]" by (rule map_upd_eqD1)
    then show False by simp
  qed
  have n2: "Map.empty \<noteq> [''time'' \<mapsto> NDArray [0]]"
  proof
    assume "Map.empty = [''time'' \<mapsto> NDArray [0]]"
    then have "Map.empty ''time'' = [''time'' \<mapsto> NDArray [0]] ''time''" by (rule fun_cong)
    then show False by simp
  qed
  from c s n1 d n2 show ?thesis by blast
qed

text \<open>
  Claim C3, amended. The four subdomain properties are read-only: on any mesh, reading
  one leaves the mesh unchanged, and assigning to one or deleting one is rejected with
  \<^verbatim>\<open>AttributeError\<close> and changes no field.
\<close>

theorem properties_read_only:
  assumes "name \<in> {''negative_electrode'', ''separator'', ''positive_electrode'', ''whole_cell''}"
  shows "snd (perform (GetAttr name) self) = self
    \<and> perform (SetAttr name v) self = (Inl AttributeError, self)
    \<and> perform (DelAttr name) self = (Inl AttributeError, self)"
  using assms
  by (auto simp: setattr_def delattr_def BaseMesh_property_simps split: sum.splits)

theorem properties_read_only_witness:
  "snd (perform (GetAttr ''whole_cell'') [''time'' \<mapsto> NDArray [0]]) = [''time'' \<mapsto> NDArray [0]]
   \<and> perform (SetAttr ''whole_cell'' (Object 3)) [''time'' \<mapsto> NDArray [0]]
       = (Inl AttributeError, [''time'' \<mapsto> NDArray [0]])
   \<and> perform (DelAttr ''whole_cell'') [''time'' \<mapsto> NDArray [0]]
       = (Inl AttributeError, [''time'' \<mapsto> NDArray [0]])"
  using properties_read_only [of "''whole_cell''" "[''time'' \<mapsto> NDArray [0]]" "Object 3"]
  by simp

end
